theory Spec2Isabelle
  imports Complex_Main
begin

section \<open>Python values shared by the modelled modules\<close>

text \<open>
  The backend stores money, volumes and hours in \<open>Numeric\<close> columns and computes on them
  with Python's \<open>Decimal\<close>. A \<open>Decimal\<close> operation is exact as long as its result has at
  most 28 significant digits. Amounts of eight digits and quantities of realistic size
  stay within that range, and there a decimal is modelled by the rational number it
  denotes.
  A nullable column is an \<open>option\<close>; the exceptions the modelled code can raise are
  values of \<open>py_error\<close>.
\<close>

datatype py_error = TypeError | DatabaseError string

text \<open>Truthiness of a nullable decimal: \<open>None\<close> and zero are false.\<close>

definition truthy :: "rat option \<Rightarrow> bool" where
  "truthy v = (case v of None \<Rightarrow> False | Some x \<Rightarrow> x \<noteq> 0)"

section \<open>Quotes and their pricing (\<open>src/routes/quotes.py\<close>, \<open>src/models\<close>)\<close>

record quote_item =
  item_catalog_id :: "string option"
  detected_name :: "string option"
  quantity :: "int option"
  cubic_feet :: "rat option"
  labor_hours :: "rat option"
  unit_price :: "rat option"
  total_price :: "rat option"
  confidence_score :: "rat option"

record pricing_rule =
  rate_per_cubic_foot :: rat
  labor_rate_per_hour :: rat
  minimum_charge :: "rat option"
  distance_rate_per_mile :: "rat option"

record quote =
  q_id :: string
  q_tenant_id :: string
  quote_number :: string
  quote_items :: "quote_item list"
  distance_miles :: "rat option"
  total_cubic_feet :: rat
  total_labor_hours :: rat
  subtotal :: rat
  tax_amount :: rat
  total_amount :: rat

text \<open>
  \<open>if v: acc += v * item.quantity\<close>: nothing happens for a null or zero \<open>v\<close>;
  otherwise a null quantity makes the product raise \<open>TypeError\<close>.
\<close>

definition add_scaled :: "rat \<Rightarrow> rat option \<Rightarrow> int option \<Rightarrow> py_error + rat" where
  "add_scaled acc v q =
     (case v of
        None \<Rightarrow> Inr acc
      | Some x \<Rightarrow>
          if x = 0 then Inr acc
          else (case q of None \<Rightarrow> Inl TypeError | Some n \<Rightarrow> Inr (acc + x * of_int n)))"

text \<open>\<open>if item.total_price: subtotal += item.total_price\<close>\<close>

definition add_price :: "rat \<Rightarrow> rat option \<Rightarrow> rat" where
  "add_price acc v = (case v of None \<Rightarrow> acc | Some x \<Rightarrow> if x = 0 then acc else acc + x)"

text \<open>
  The loop over \<open>quote.quote_items\<close>, with the three running sums
  \<open>(total_cubic_feet, total_labor_hours, subtotal)\<close> as accumulator.
\<close>

fun sum_items :: "quote_item list \<Rightarrow> rat \<times> rat \<times> rat \<Rightarrow> py_error + rat \<times> rat \<times> rat" where
  "sum_items [] acc = Inr acc"
| "sum_items (item # items) (cf, lh, st) =
     (case add_scaled cf (cubic_feet item) (quantity item) of
        Inl e \<Rightarrow> Inl e
      | Inr cf' \<Rightarrow>
          (case add_scaled lh (labor_hours item) (quantity item) of
             Inl e \<Rightarrow> Inl e
           | Inr lh' \<Rightarrow> sum_items items (cf', lh', add_price st (total_price item))))"

definition cubic_feet_cost :: "rat \<Rightarrow> pricing_rule \<Rightarrow> rat" where
  "cubic_feet_cost tcf rule = tcf * rate_per_cubic_foot rule"

definition labor_cost :: "rat \<Rightarrow> pricing_rule \<Rightarrow> rat" where
  "labor_cost tlh rule = tlh * labor_rate_per_hour rule"

definition distance_cost :: "quote \<Rightarrow> pricing_rule \<Rightarrow> rat" where
  "distance_cost q rule =
     (case (distance_miles q, distance_rate_per_mile rule) of
        (Some d, Some r) \<Rightarrow> if d \<noteq> 0 \<and> r \<noteq> 0 then d * r else 0
      | _ \<Rightarrow> 0)"

definition tax_rate :: rat where
  "tax_rate = 85 / 1000"

text \<open>
  \<open>calculate_quote_pricing(quote, pricing_rule)\<close>. Comparing the computed subtotal with a
  null \<open>minimum_charge\<close> raises \<open>TypeError\<close>.
\<close>

definition calculate_quote_pricing :: "quote \<Rightarrow> pricing_rule \<Rightarrow> py_error + quote" where
  "calculate_quote_pricing q rule =
     (case sum_items (quote_items q) (0, 0, 0) of
        Inl e \<Rightarrow> Inl e
      | Inr (tcf, tlh, st) \<Rightarrow>
          (let calculated_subtotal =
                 cubic_feet_cost tcf rule + labor_cost tlh rule + distance_cost q rule
           in case minimum_charge rule of
                None \<Rightarrow> Inl TypeError
              | Some m \<Rightarrow>
                  (let calculated_subtotal' =
                         (if calculated_subtotal < m then m else calculated_subtotal)
                   in Inr (q\<lparr>total_cubic_feet := tcf,
                             total_labor_hours := tlh,
                             subtotal := calculated_subtotal',
                             tax_amount := calculated_subtotal' * tax_rate,
                             total_amount := calculated_subtotal' + calculated_subtotal' * tax_rate\<rparr>))))"




text \<open>The five totals that \<open>calculate_quote_pricing\<close> assigns.\<close>

definition totals :: "quote \<Rightarrow> rat \<times> rat \<times> rat \<times> rat \<times> rat" where
  "totals q = (total_cubic_feet q, total_labor_hours q, subtotal q, tax_amount q, total_amount q)"

text \<open>Concrete data of the pricing scenarios: the sample rule, a line item, a fresh quote.\<close>

definition scenario_rule :: pricing_rule where
  "scenario_rule = \<lparr>rate_per_cubic_foot = 17 / 2, labor_rate_per_hour = 85,
                     minimum_charge = Some 150, distance_rate_per_mile = Some (5 / 2)\<rparr>"

definition plain_item :: "int \<Rightarrow> rat \<Rightarrow> rat \<Rightarrow> quote_item" where
  "plain_item n cf lh = \<lparr>item_catalog_id = None, detected_name = None, quantity = Some n,
       cubic_feet = Some cf, labor_hours = Some lh, unit_price = None, total_price = None,
       confidence_score = None\<rparr>"

definition new_quote :: "quote_item list \<Rightarrow> rat option \<Rightarrow> quote" where
  "new_quote items d = \<lparr>q_id = ''quote-1'', q_tenant_id = ''tenant-1'',
       quote_number = ''Q2025010001'', quote_items = items, distance_miles = d,
       total_cubic_feet = 0, total_labor_hours = 0, subtotal = 0, tax_amount = 0,
       total_amount = 0\<rparr>"


section \<open>The rate limiter (\<open>src/utils/rate_limiter.py\<close>)\<close>

text \<open>
  \<open>datetime.now()\<close> is an input of the model. A row of the table \<open>rate_limits\<close> keeps the
  columns the limiter reads and writes; \<open>request_count\<close> is a nullable integer column.
\<close>

record datetime =
  year :: nat
  month :: nat
  day :: nat
  hour :: nat
  minute :: nat
  second :: nat
  microsecond :: nat

record rate_limit =
  rl_tenant_id :: string
  rl_ip_address :: string
  rl_endpoint :: string
  request_count :: "int option"
  window_start :: datetime

text \<open>
  The database session as the limiter sees it: the rows of \<open>rate_limits\<close>, and the failure
  (if any) that the storage answers a query or a commit with. A failed commit persists
  nothing.
\<close>

record db_session =
  rate_limits :: "rate_limit list"
  query_error :: "string option"
  commit_error :: "string option"

definition RATE_LIMIT_WINDOW_MINUTES :: int where
  "RATE_LIMIT_WINDOW_MINUTES = 60"

definition RATE_LIMIT_MAX_REQUESTS :: int where
  "RATE_LIMIT_MAX_REQUESTS = 100"

text \<open>\<open>x or default\<close> on an optional integer argument: \<open>None\<close> and \<open>0\<close> are false.\<close>

definition or_default :: "int option \<Rightarrow> int \<Rightarrow> int" where
  "or_default x d = (case x of None \<Rightarrow> d | Some v \<Rightarrow> if v = 0 then d else v)"

text \<open>\<open>now.replace(minute=0, second=0, microsecond=0)\<close>\<close>

definition window_of :: "datetime \<Rightarrow> datetime" where
  "window_of now = now\<lparr>minute := 0, second := 0, microsecond := 0\<rparr>"

text \<open>The filter of \<open>RateLimit.query.filter_by(...)\<close>.\<close>

definition matches :: "string \<Rightarrow> string \<Rightarrow> string \<Rightarrow> datetime \<Rightarrow> rate_limit \<Rightarrow> bool" where
  "matches t ip ep w rl =
     (rl_tenant_id rl = t \<and> rl_ip_address rl = ip \<and> rl_endpoint rl = ep \<and> window_start rl = w)"

definition query_first ::
  "db_session \<Rightarrow> string \<Rightarrow> string \<Rightarrow> string \<Rightarrow> datetime \<Rightarrow> py_error + rate_limit option" where
  "query_first db t ip ep w =
     (case query_error db of
        Some e \<Rightarrow> Inl (DatabaseError e)
      | None \<Rightarrow> Inr (find (matches t ip ep w) (rate_limits db)))"

definition commit :: "db_session \<Rightarrow> rate_limit list \<Rightarrow> py_error + db_session" where
  "commit db rows =
     (case commit_error db of
        Some e \<Rightarrow> Inl (DatabaseError e)
      | None \<Rightarrow> Inr (db\<lparr>rate_limits := rows\<rparr>))"

text \<open>The row that \<open>.first()\<close> returned is the one whose counter the session updates.\<close>

fun update_first :: "('a \<Rightarrow> bool) \<Rightarrow> ('a \<Rightarrow> 'a) \<Rightarrow> 'a list \<Rightarrow> 'a list" where
  "update_first P f [] = []"
| "update_first P f (x # xs) = (if P x then f x # xs else x # update_first P f xs)"

text \<open>
  Normalising the client address. The first argument stands for
  \<open>str(ipaddress.ip_address(ip_address))\<close> of the standard library, \<open>None\<close> when it raises
  \<open>ValueError\<close>; the address is then used as it came.
\<close>

definition normalize_ip :: "(string \<Rightarrow> string option) \<Rightarrow> string \<Rightarrow> string" where
  "normalize_ip ip_str ip_address = (case ip_str ip_address of Some s \<Rightarrow> s | None \<Rightarrow> ip_address)"

text \<open>
  The body of the \<open>try\<close> block of \<open>check_rate_limit\<close>. Comparing a null \<open>request_count\<close>
  with the limit raises \<open>TypeError\<close>.
\<close>

definition check_rate_limit_try ::
  "(string \<Rightarrow> string option) \<Rightarrow> db_session \<Rightarrow> string \<Rightarrow> string \<Rightarrow> string \<Rightarrow>
   int option \<Rightarrow> int option \<Rightarrow> datetime \<Rightarrow> py_error + bool \<times> db_session" where
  "check_rate_limit_try ip_str db tenant_id ip_address endpoint max_requests window_minutes now =
     (let max_requests' = or_default max_requests RATE_LIMIT_MAX_REQUESTS;
          window_minutes' = or_default window_minutes RATE_LIMIT_WINDOW_MINUTES;
          window_start' = window_of now;
          normalized_ip = normalize_ip ip_str ip_address
      in case query_first db tenant_id normalized_ip endpoint window_start' of
           Inl e \<Rightarrow> Inl e
         | Inr None \<Rightarrow>
             (case commit db (rate_limits db @
                     [\<lparr>rl_tenant_id = tenant_id, rl_ip_address = normalized_ip,
                       rl_endpoint = endpoint, request_count = Some 1,
                       window_start = window_start'\<rparr>]) of
                Inl e \<Rightarrow> Inl e
              | Inr db' \<Rightarrow> Inr (True, db'))
         | Inr (Some rl) \<Rightarrow>
             (case request_count rl of
                None \<Rightarrow> Inl TypeError
              | Some c \<Rightarrow>
                  if c \<ge> max_requests' then Inr (False, db)
                  else (case commit db
                               (update_first (matches tenant_id normalized_ip endpoint window_start')
                                  (\<lambda>r. r\<lparr>request_count := Some (c + 1)\<rparr>) (rate_limits db)) of
                          Inl e \<Rightarrow> Inl e
                        | Inr db' \<Rightarrow> Inr (True, db'))))"

text \<open>\<open>check_rate_limit\<close>: the \<open>except Exception\<close> clause prints the error and returns \<open>True\<close>.\<close>

definition check_rate_limit ::
  "(string \<Rightarrow> string option) \<Rightarrow> db_session \<Rightarrow> string \<Rightarrow> string \<Rightarrow> string \<Rightarrow>
   int option \<Rightarrow> int option \<Rightarrow> datetime \<Rightarrow> bool \<times> db_session" where
  "check_rate_limit ip_str db tenant_id ip_address endpoint max_requests window_minutes now =
     (case check_rate_limit_try ip_str db tenant_id ip_address endpoint max_requests
             window_minutes now of
        Inl e \<Rightarrow> (True, db)
      | Inr r \<Rightarrow> r)"



text \<open>Concrete data for the limiter: a time on a fixed day, a session with an empty table.\<close>

definition clock :: "nat \<Rightarrow> nat \<Rightarrow> datetime" where
  "clock h mi = \<lparr>year = 2025, month = 1, day = 15, hour = h, minute = mi, second = 0,
                 microsecond = 0\<rparr>"

definition empty_session :: db_session where
  "empty_session = \<lparr>rate_limits = [], query_error = None, commit_error = None\<rparr>"

section \<open>The catalog matcher (\<open>src/routes/detection.py\<close>)\<close>

text \<open>
  Strings are lists of 8-bit characters: \<open>str.lower()\<close> is modelled on ASCII, and
  \<open>a in b\<close> is the substring test. A Python \<open>float\<close> (a confidence, a converted decimal)
  is modelled by a rational number; the rounding of binary floating point is not
  modelled.
\<close>

definition lower_char :: "char \<Rightarrow> char" where
  "lower_char c =
     (let n = (of_char c :: nat) in if 65 \<le> n \<and> n \<le> 90 then char_of (n + 32) else c)"

definition str_lower :: "string \<Rightarrow> string" where
  "str_lower s = map lower_char s"

fun starts_with :: "string \<Rightarrow> string \<Rightarrow> bool" where
  "starts_with s [] = True"
| "starts_with [] (p # ps) = False"
| "starts_with (c # cs) (p # ps) = (c = p \<and> starts_with cs ps)"

text \<open>\<open>str_in sub s\<close> is Python's \<open>sub in s\<close>.\<close>

fun str_in :: "string \<Rightarrow> string \<Rightarrow> bool" where
  "str_in sub [] = (sub = [])"
| "str_in sub (c # cs) = (starts_with (c # cs) sub \<or> str_in sub cs)"

record item_catalog =
  ic_id :: string
  ic_tenant_id :: string
  ic_name :: string
  aliases :: "string list option"
  category :: "string option"
  base_cubic_feet :: "rat option"
  labor_multiplier :: "rat option"
  is_active :: "bool option"

text \<open>
  One detection of the vision service, a JSON object: a field is \<open>None\<close> when its key is
  absent, and \<open>detection.get\<close> then supplies the default.
\<close>

record detection =
  det_name :: "string option"
  det_confidence :: "rat option"
  det_quantity :: "int option"
  det_bbox :: "(rat \<times> rat \<times> rat \<times> rat) option"

record mapped_item =
  mi_detected_name :: "string option"
  mi_confidence_score :: rat
  mi_quantity :: int
  mi_bounding_box :: "(rat \<times> rat \<times> rat \<times> rat) option"
  catalog_item_id :: "string option"
  catalog_item_name :: "string option"
  mi_cubic_feet :: "rat option"
  mi_labor_multiplier :: rat
  mi_category :: "string option"

text \<open>
  The inner loop \<open>for alias in catalog_item.aliases\<close>, on the pair
  \<open>(matched_item, best_match_score)\<close>, with \<open>detected\<close> for the lower-cased label: an exact alias sets the score 0.9 and leaves the
  loop; a substring match in either direction sets 0.7 if the score is still below 0.7.
\<close>

fun alias_loop ::
  "item_catalog \<Rightarrow> string \<Rightarrow> string list \<Rightarrow> item_catalog option \<times> rat \<Rightarrow>
   item_catalog option \<times> rat" where
  "alias_loop catalog_item detected [] st = st"
| "alias_loop catalog_item detected (alias # rest) (matched_item, best_match_score) =
     (if str_lower alias = detected then (Some catalog_item, 9 / 10)
      else if str_in detected (str_lower alias) \<or> str_in (str_lower alias) detected
      then alias_loop catalog_item detected rest
             (if best_match_score < 7 / 10 then (Some catalog_item, 7 / 10)
              else (matched_item, best_match_score))
      else alias_loop catalog_item detected rest (matched_item, best_match_score))"

text \<open>
  The outer loop \<open>for catalog_item in catalog_items\<close>: an exact name sets the score 1.0
  and leaves the loop; otherwise the aliases are scanned, if there are any.
\<close>

fun catalog_loop ::
  "string \<Rightarrow> item_catalog list \<Rightarrow> item_catalog option \<times> rat \<Rightarrow> item_catalog option \<times> rat" where
  "catalog_loop detected [] st = st"
| "catalog_loop detected (catalog_item # rest) st =
     (if str_lower (ic_name catalog_item) = detected then (Some catalog_item, 1)
      else catalog_loop detected rest
             (case aliases catalog_item of
                None \<Rightarrow> st
              | Some as \<Rightarrow> alias_loop catalog_item detected as st))"

text \<open>The search for one detected label, from \<open>matched_item = None\<close>, \<open>best_match_score = 0\<close>.\<close>

definition best_match :: "string \<Rightarrow> item_catalog list \<Rightarrow> item_catalog option \<times> rat" where
  "best_match detected catalog_items = catalog_loop detected catalog_items (None, 0)"

text \<open>The body of \<open>for detection in detections\<close>: the search, then the mapped item.\<close>

definition map_detection :: "item_catalog list \<Rightarrow> detection \<Rightarrow> mapped_item" where
  "map_detection catalog_items d =
     (let detected = str_lower (case det_name d of None \<Rightarrow> [] | Some n \<Rightarrow> n);
          confidence = (case det_confidence d of None \<Rightarrow> 0 | Some c \<Rightarrow> c);
          matched_item = fst (best_match detected catalog_items)
      in \<lparr>mi_detected_name = det_name d,
          mi_confidence_score = confidence,
          mi_quantity = (case det_quantity d of None \<Rightarrow> 1 | Some n \<Rightarrow> n),
          mi_bounding_box = det_bbox d,
          catalog_item_id = map_option ic_id matched_item,
          catalog_item_name = map_option ic_name matched_item,
          mi_cubic_feet =
            (case matched_item of
               None \<Rightarrow> None
             | Some m \<Rightarrow> if truthy (base_cubic_feet m) then base_cubic_feet m else None),
          mi_labor_multiplier =
            (case matched_item of
               None \<Rightarrow> 1
             | Some m \<Rightarrow> (case labor_multiplier m of
                            None \<Rightarrow> 1
                          | Some l \<Rightarrow> if l = 0 then 1 else l)),
          mi_category =
            (case matched_item of None \<Rightarrow> Some ''Unknown'' | Some m \<Rightarrow> category m)\<rparr>)"

text \<open>
  \<open>map_detections_to_catalog(detections, tenant_id)\<close>; the first argument is the table
  \<open>item_catalog\<close>, from which the query takes the tenant's active rows.
\<close>

definition map_detections_to_catalog ::
  "item_catalog list \<Rightarrow> detection list \<Rightarrow> string \<Rightarrow> mapped_item list" where
  "map_detections_to_catalog item_catalog_table detections tenant_id =
     (let catalog_items =
            filter (\<lambda>c. ic_tenant_id c = tenant_id \<and> is_active c = Some True) item_catalog_table
      in map (map_detection catalog_items) detections)"

text \<open>Concrete data for the matcher: the catalog entry of the scenario.\<close>

definition sofa :: item_catalog where
  "sofa = \<lparr>ic_id = ''c-sofa'', ic_tenant_id = ''tenant-1'', ic_name = ''Sofa'',
            aliases = Some [''Couch'', ''Sectional''], category = Some ''Furniture'',
            base_cubic_feet = Some 45, labor_multiplier = Some 1, is_active = Some True\<rparr>"

definition detection_of :: "string \<Rightarrow> rat \<Rightarrow> detection" where
  "detection_of n c = \<lparr>det_name = Some n, det_confidence = Some c, det_quantity = Some 1,
                    det_bbox = None\<rparr>"

section \<open>Detection jobs (\<open>detect_text\<close> and \<open>detect_auto\<close> in \<open>src/routes/detection.py\<close>)\<close>

datatype job_status = Pending | Processing | Completed | Failed

record detection_job =
  dj_tenant_id :: string
  dj_quote_id :: string
  media_ids :: "string list"
  job_type :: string
  prompt :: "string option"
  status :: job_status
  results :: "(detection list \<times> mapped_item list) option"
  error_message :: "string option"
  completed_at :: "datetime option"

text \<open>
  The JSON answer of the vision service, as far as the routes read it: \<open>success\<close>, and
  the optional keys \<open>detections\<close> and \<open>error\<close>. What \<open>call_yoloe_service\<close> gives a route is
  either such an answer or a raised exception, represented by its message.
\<close>

record yoloe_response =
  resp_success :: bool
  resp_detections :: "detection list option"
  resp_error :: "string option"

definition create_detection_job ::
  "string \<Rightarrow> string \<Rightarrow> string list \<Rightarrow> string \<Rightarrow> string option \<Rightarrow> detection_job" where
  "create_detection_job tenant_id quote_id media job_type' prompt' =
     \<lparr>dj_tenant_id = tenant_id, dj_quote_id = quote_id, media_ids = media,
      job_type = job_type', prompt = prompt', status = Pending, results = None,
      error_message = None, completed_at = None\<rparr>"

text \<open>Truthiness of \<open>item['catalog_item_id']\<close>: a string or \<open>None\<close>.\<close>

definition str_truthy :: "string option \<Rightarrow> bool" where
  "str_truthy v = (case v of None \<Rightarrow> False | Some s \<Rightarrow> s \<noteq> [])"

text \<open>The \<open>QuoteItem(...)\<close> that both routes build from a mapped item.\<close>

definition to_quote_item :: "mapped_item \<Rightarrow> quote_item" where
  "to_quote_item item =
     \<lparr>item_catalog_id = catalog_item_id item, detected_name = mi_detected_name item,
      quantity = Some (mi_quantity item), cubic_feet = mi_cubic_feet item, labor_hours = None,
      unit_price = None, total_price = None,
      confidence_score = Some (mi_confidence_score item)\<rparr>"

text \<open>
  The loop \<open>for item in mapped_items\<close> of both routes, which differ in the threshold only:
  an item with a catalog id and a confidence above the threshold becomes a row of the
  quote. The routes assign nothing else of the quote.
\<close>

definition add_confident_items :: "rat \<Rightarrow> mapped_item list \<Rightarrow> quote \<Rightarrow> quote" where
  "add_confident_items threshold mapped_items q =
     q\<lparr>quote_items := quote_items q @
          map to_quote_item
            (filter (\<lambda>item. str_truthy (catalog_item_id item) \<and> mi_confidence_score item > threshold)
               mapped_items)\<rparr>"

text \<open>
  \<open>detect_text\<close> after its validation, for an existing quote with media: the job is
  created, set to processing, and the answer of the service decides the rest. The
  \<open>except\<close> clause of the inner \<open>try\<close> marks the job failed with the exception's text.
\<close>

definition detect_text ::
  "item_catalog list \<Rightarrow> string \<Rightarrow> string \<Rightarrow> string list \<Rightarrow> string \<Rightarrow> bool \<Rightarrow> datetime \<Rightarrow>
   string + yoloe_response \<Rightarrow> quote \<Rightarrow> detection_job \<times> quote" where
  "detect_text item_catalog_table tenant_id quote_id media prompt' auto_add_items now result q =
     (let job = create_detection_job tenant_id quote_id media ''text'' (Some prompt');
          job = job\<lparr>status := Processing\<rparr>
      in case result of
           Inl e \<Rightarrow> (job\<lparr>status := Failed, error_message := Some e\<rparr>, q)
         | Inr r \<Rightarrow>
             if resp_success r then
               (let detections = (case resp_detections r of None \<Rightarrow> [] | Some ds \<Rightarrow> ds);
                    mapped_items = map_detections_to_catalog item_catalog_table detections tenant_id;
                    job = job\<lparr>status := Completed,
                              results := Some (detections, mapped_items),
                              completed_at := Some now\<rparr>
                in (job, if auto_add_items then add_confident_items (7 / 10) mapped_items q else q))
             else
               (job\<lparr>status := Failed,
                    error_message :=
                      Some (case resp_error r of None \<Rightarrow> ''Unknown error'' | Some e \<Rightarrow> e)\<rparr>, q))"

text \<open>\<open>detect_auto\<close>: no prompt, no flag, and the threshold 0.8.\<close>

definition detect_auto ::
  "item_catalog list \<Rightarrow> string \<Rightarrow> string \<Rightarrow> string list \<Rightarrow> datetime \<Rightarrow>
   string + yoloe_response \<Rightarrow> quote \<Rightarrow> detection_job \<times> quote" where
  "detect_auto item_catalog_table tenant_id quote_id media now result q =
     (let job = create_detection_job tenant_id quote_id media ''auto'' None;
          job = job\<lparr>status := Processing\<rparr>
      in case result of
           Inl e \<Rightarrow> (job\<lparr>status := Failed, error_message := Some e\<rparr>, q)
         | Inr r \<Rightarrow>
             if resp_success r then
               (let detections = (case resp_detections r of None \<Rightarrow> [] | Some ds \<Rightarrow> ds);
                    mapped_items = map_detections_to_catalog item_catalog_table detections tenant_id;
                    job = job\<lparr>status := Completed,
                              results := Some (detections, mapped_items),
                              completed_at := Some now\<rparr>
                in (job, add_confident_items (8 / 10) mapped_items q))
             else
               (job\<lparr>status := Failed,
                    error_message :=
                      Some (case resp_error r of None \<Rightarrow> ''Unknown error'' | Some e \<Rightarrow> e)\<rparr>, q))"

text \<open>Concrete data for the routes: a priced empty quote at 20 miles, two answers.\<close>

definition priced_quote :: quote where
  "priced_quote = (new_quote [] (Some 20))\<lparr>subtotal := 150, tax_amount := 51 / 4,
                                            total_amount := 651 / 4\<rparr>"

definition couch_found :: yoloe_response where
  "couch_found = \<lparr>resp_success = True, resp_detections = Some [detection_of ''couch'' (95 / 100)],
                   resp_error = None\<rparr>"


section \<open>The quote number generator (\<open>generate_quote_number\<close> in \<open>src/routes/quotes.py\<close>)\<close>

text \<open>
  Decimal formatting as the f-strings do it: \<open>{n}\<close>, and \<open>{n:0wd}\<close>, which pads with zeros
  up to the width \<open>w\<close>, never cuts, and counts the sign of a negative number in the width.
\<close>

definition digit_char :: "nat \<Rightarrow> char" where
  "digit_char d = ''0123456789'' ! d"

fun dec_digits :: "nat \<Rightarrow> string" where
  "dec_digits n = (if n < 10 then [digit_char n] else dec_digits (n div 10) @ [digit_char (n mod 10)])"

definition zero_pad :: "nat \<Rightarrow> nat \<Rightarrow> string" where
  "zero_pad w n = replicate (w - length (dec_digits n)) (CHR ''0'') @ dec_digits n"

definition format_0wd :: "nat \<Rightarrow> int \<Rightarrow> string" where
  "format_0wd w n = (if n < 0 then CHR ''-'' # zero_pad (w - 1) (nat (- n)) else zero_pad w (nat n))"

text \<open>
  \<open>int(s)\<close> on an ASCII string: surrounding whitespace, one optional sign, then digits,
  where single underscores may stand between digits. \<open>None\<close> is \<open>ValueError\<close>.
\<close>

definition is_digit :: "char \<Rightarrow> bool" where
  "is_digit c = (48 \<le> (of_char c :: nat) \<and> (of_char c :: nat) \<le> 57)"

definition digit_value :: "char \<Rightarrow> nat" where
  "digit_value c = of_char c - 48"

definition is_space :: "char \<Rightarrow> bool" where
  "is_space c =
     ((of_char c :: nat) = 32 \<or> (9 \<le> (of_char c :: nat) \<and> (of_char c :: nat) \<le> 13) \<or>
      (28 \<le> (of_char c :: nat) \<and> (of_char c :: nat) \<le> 31))"

fun int_digits :: "nat \<Rightarrow> string \<Rightarrow> nat option" where
  "int_digits acc [] = Some acc"
| "int_digits acc [c] = (if is_digit c then Some (acc * 10 + digit_value c) else None)"
| "int_digits acc (c # d # cs) =
     (if is_digit c then int_digits (acc * 10 + digit_value c) (d # cs)
      else if c = CHR ''_'' \<and> is_digit d then int_digits (acc * 10 + digit_value d) cs
      else None)"

definition int_unsigned :: "string \<Rightarrow> nat option" where
  "int_unsigned s =
     (case s of [] \<Rightarrow> None | c # cs \<Rightarrow> if is_digit c then int_digits (digit_value c) cs else None)"

definition str_strip :: "string \<Rightarrow> string" where
  "str_strip s = rev (dropWhile is_space (rev (dropWhile is_space s)))"

definition py_int :: "string \<Rightarrow> int option" where
  "py_int s =
     (case str_strip s of
        [] \<Rightarrow> None
      | c # cs \<Rightarrow>
          if c = CHR ''-'' then map_option (\<lambda>n. - int n) (int_unsigned cs)
          else if c = CHR ''+'' then map_option int (int_unsigned cs)
          else map_option int (int_unsigned (c # cs)))"

text \<open>
  \<open>ORDER BY quote_number DESC\<close> compares strings, character by character; on the
  characters of generated numbers (\<open>Q\<close> and digits) every collation agrees with the
  order of the character codes.
\<close>

fun str_less :: "string \<Rightarrow> string \<Rightarrow> bool" where
  "str_less [] [] = False"
| "str_less [] (y # ys) = True"
| "str_less (x # xs) [] = False"
| "str_less (x # xs) (y # ys) =
     ((of_char x :: nat) < of_char y \<or> (x = y \<and> str_less xs ys))"

text \<open>\<open>.order_by(Quote.quote_number.desc()).first()\<close> on the filtered rows.\<close>

fun latest_by_number :: "quote list \<Rightarrow> quote option" where
  "latest_by_number [] = None"
| "latest_by_number (q # qs) =
     (case latest_by_number qs of
        None \<Rightarrow> Some q
      | Some r \<Rightarrow> if str_less (quote_number q) (quote_number r) then Some r else Some q)"

text \<open>
  \<open>generate_quote_number(tenant_id)\<close>, with the table \<open>quotes\<close> and \<open>datetime.now()\<close> as
  inputs. The prefix holds no wildcard, so \<open>LIKE prefix%\<close> is the test for a prefix. The
  function reads the table and writes nothing.
\<close>

definition generate_quote_number :: "quote list \<Rightarrow> string \<Rightarrow> datetime \<Rightarrow> string" where
  "generate_quote_number quotes tenant_id now =
     (let prefix = ''Q'' @ dec_digits (year now) @ zero_pad 2 (month now);
          latest_quote =
            latest_by_number
              (filter (\<lambda>q. q_tenant_id q = tenant_id \<and> starts_with (quote_number q) prefix) quotes);
          sequence =
            (case latest_quote of
               Some q \<Rightarrow>
                 (case py_int (drop (length prefix) (quote_number q)) of
                    Some n \<Rightarrow> n + 1
                  | None \<Rightarrow> 1)
             | None \<Rightarrow> 1)
      in prefix @ format_0wd 4 sequence)"

text \<open>A stored quote of the sample tenant with the given number.\<close>

definition numbered :: "string \<Rightarrow> quote" where
  "numbered n = (new_quote [] None)\<lparr>quote_number := n\<rparr>"

section \<open>Properties of the pricing calculator\<close>






text \<open>
  C5. Under the sample rule (8.50 per cubic foot, 85.00 per hour, minimum 150.00, 2.50
  per mile), line items that total 100 cubic feet and 5 labor hours at a distance of 20
  miles give cubic cost 850, labor cost 425, distance cost 50, subtotal 1325, tax
  112.625 and total 1437.625, exactly.
\<close>

theorem scenario_pricing:
  assumes "sum_items (quote_items q) (0, 0, 0) = Inr (100, 5, st)"
    and "distance_miles q = Some 20"
  shows "cubic_feet_cost 100 scenario_rule = 850 \<and>
         labor_cost 5 scenario_rule = 425 \<and>
         distance_cost q scenario_rule = 50 \<and>
         tax_rate = 85 / 1000 \<and>
         calculate_quote_pricing q scenario_rule =
           Inr (q\<lparr>total_cubic_feet := 100, total_labor_hours := 5, subtotal := 1325,
                  tax_amount := 112625 / 1000, total_amount := 1437625 / 1000\<rparr>)"
  using assms
  by (simp add: calculate_quote_pricing_def scenario_rule_def cubic_feet_cost_def labor_cost_def
      distance_cost_def tax_rate_def Let_def)

theorem scenario_pricing_witness:
  "sum_items (quote_items (new_quote [plain_item 2 50 (5 / 2)] (Some 20))) (0, 0, 0) = Inr (100, 5, 0) \<and>
   distance_miles (new_quote [plain_item 2 50 (5 / 2)] (Some 20)) = Some 20 \<and>
   calculate_quote_pricing (new_quote [plain_item 2 50 (5 / 2)] (Some 20)) scenario_rule =
     Inr (new_quote [plain_item 2 50 (5 / 2)] (Some 20)
            \<lparr>total_cubic_feet := 100, total_labor_hours := 5, subtotal := 1325,
             tax_amount := 112625 / 1000, total_amount := 1437625 / 1000\<rparr>)"
proof -
  have h1: "sum_items (quote_items (new_quote [plain_item 2 50 (5 / 2)] (Some 20))) (0, 0, 0) = Inr (100, 5, 0)"
    by (simp add: new_quote_def plain_item_def add_scaled_def add_price_def)
  have h2: "distance_miles (new_quote [plain_item 2 50 (5 / 2)] (Some 20)) = Some 20"
    by (simp add: new_quote_def)
  from scenario_pricing [OF h1 h2] h1 h2 show ?thesis by simp
qed




section \<open>Properties of the rate limiter\<close>












text \<open>Storage failures and a null counter are errors of the \<open>try\<close> block.\<close>

lemma query_failure_raises:
  "query_error db = Some msg \<Longrightarrow>
   check_rate_limit_try ip_str db t ip ep mr wm now = Inl (DatabaseError msg)"
  by (simp add: check_rate_limit_try_def query_first_def Let_def)

lemma commit_failure_raises:
  "query_error db = None \<Longrightarrow> commit_error db = Some msg \<Longrightarrow>
   find (matches t (normalize_ip ip_str ip) ep (window_of now)) (rate_limits db) = None \<Longrightarrow>
   check_rate_limit_try ip_str db t ip ep mr wm now = Inl (DatabaseError msg)"
  by (simp add: check_rate_limit_try_def query_first_def commit_def Let_def)

lemma null_counter_raises:
  "query_error db = None \<Longrightarrow>
   find (matches t (normalize_ip ip_str ip) ep (window_of now)) (rate_limits db) = Some rl \<Longrightarrow>
   request_count rl = None \<Longrightarrow>
   check_rate_limit_try ip_str db t ip ep mr wm now = Inl TypeError"
  by (simp add: check_rate_limit_try_def query_first_def Let_def)

text \<open>
  C9. Whenever the body of \<open>check_rate_limit\<close> raises, whatever the error, the function
  returns \<open>True\<close> (allowed) and leaves the stored rows as they were: it neither denies the
  request nor passes the error on.
\<close>

theorem fails_open:
  assumes "check_rate_limit_try ip_str db t ip ep mr wm now = Inl e"
  shows "check_rate_limit ip_str db t ip ep mr wm now = (True, db)"
  using assms by (simp add: check_rate_limit_def)








theorem fails_open_witness:
  "check_rate_limit_try Some (empty_session\<lparr>query_error := Some ''connection refused''\<rparr>)
      ''tenant-1'' ''203.0.113.7'' ''/public/quote'' None None (clock 9 5) =
     Inl (DatabaseError ''connection refused'') \<and>
   check_rate_limit Some (empty_session\<lparr>query_error := Some ''connection refused''\<rparr>)
      ''tenant-1'' ''203.0.113.7'' ''/public/quote'' None None (clock 9 5) =
     (True, empty_session\<lparr>query_error := Some ''connection refused''\<rparr>)"
proof -
  have h: "check_rate_limit_try Some (empty_session\<lparr>query_error := Some ''connection refused''\<rparr>)
      ''tenant-1'' ''203.0.113.7'' ''/public/quote'' None None (clock 9 5) =
     Inl (DatabaseError ''connection refused'')"
    by (simp add: check_rate_limit_try_def query_first_def empty_session_def Let_def)
  from fails_open [OF h] h show ?thesis by simp
qed

section \<open>Properties of the catalog matcher\<close>




text \<open>The empty string is a substring of every string, as in Python.\<close>

lemma empty_str_in: "str_in [] s"
  by (cases s) simp_all

text \<open>
  C6. The empty label is matched: \<open>'' in alias.lower()\<close> holds for every alias, so the
  search returns the first entry that has an alias, with weight 0.7, and the mapped item
  carries that entry's id, name and volume.
\<close>

theorem empty_label_matches:
  "best_match (str_lower []) [sofa] = (Some sofa, 7 / 10) \<and>
   map (\<lambda>i. (catalog_item_id i, catalog_item_name i, mi_cubic_feet i))
     (map_detections_to_catalog [sofa] [detection_of [] (95 / 100)] ''tenant-1'') =
     [(Some ''c-sofa'', Some ''Sofa'', Some 45)]"
  by code_simp






section \<open>Properties of the detection routes\<close>




text \<open>Neither route assigns a total of the quote: the loop only adds rows.\<close>

lemma add_confident_totals: "totals (add_confident_items th ms q) = totals q"
  by (simp add: add_confident_items_def totals_def)

lemma detect_text_totals:
  "totals (snd (detect_text tbl t qid media p flag now result q)) = totals q"
  by (simp add: detect_text_def Let_def add_confident_totals split: sum.splits)

lemma detect_auto_totals:
  "totals (snd (detect_auto tbl t qid media now result q)) = totals q"
  by (simp add: detect_auto_def Let_def add_confident_totals split: sum.splits)

text \<open>
  The rows that a successful answer adds: the mapped items with a catalog id and a
  confidence above 0.7 (text, with the flag) or 0.8 (automatic), in order.
\<close>

lemma detect_text_items:
  "quote_items (snd (detect_text tbl t qid media p True now (Inr r) q)) =
     quote_items q @
     (if resp_success r then
        map to_quote_item
          (filter (\<lambda>i. str_truthy (catalog_item_id i) \<and> mi_confidence_score i > 7 / 10)
             (map_detections_to_catalog tbl
                (case resp_detections r of None \<Rightarrow> [] | Some ds \<Rightarrow> ds) t))
      else [])"
  by (simp add: detect_text_def Let_def add_confident_items_def)

lemma detect_auto_items:
  "quote_items (snd (detect_auto tbl t qid media now (Inr r) q)) =
     quote_items q @
     (if resp_success r then
        map to_quote_item
          (filter (\<lambda>i. str_truthy (catalog_item_id i) \<and> mi_confidence_score i > 8 / 10)
             (map_detections_to_catalog tbl
                (case resp_detections r of None \<Rightarrow> [] | Some ds \<Rightarrow> ds) t))
      else [])"
  by (simp add: detect_auto_def Let_def add_confident_items_def)

text \<open>
  C3. A priced, empty quote at 20 miles (subtotal 150, the minimum charge); a text job
  with the auto-add flag finds a couch with confidence 0.95. The sofa of 45 cubic feet
  becomes a line item, but the totals stay those of the empty quote, although
  \<open>calculate_quote_pricing\<close> on the new rows gives 45 cubic feet and a subtotal of 432.50.
\<close>

theorem detection_leaves_totals_stale:
  "calculate_quote_pricing (new_quote [] (Some 20)) scenario_rule = Inr priced_quote \<and>
   map cubic_feet (quote_items (snd (detect_text [sofa] ''tenant-1'' ''quote-1'' [''m-1''] ''sofas'' True
        (clock 9 5) (Inr couch_found) priced_quote))) = [Some 45] \<and>
   totals (snd (detect_text [sofa] ''tenant-1'' ''quote-1'' [''m-1''] ''sofas'' True
        (clock 9 5) (Inr couch_found) priced_quote)) = (0, 0, 150, 51 / 4, 651 / 4) \<and>
   map_sum id totals (calculate_quote_pricing
        (snd (detect_text [sofa] ''tenant-1'' ''quote-1'' [''m-1''] ''sofas'' True
        (clock 9 5) (Inr couch_found) priced_quote)) scenario_rule) =
     Inr (45, 0, 865 / 2, 14705 / 400, 187705 / 400)"
  by code_simp

section \<open>Properties of the quote number generator\<close>

lemma replicate_numeral: "replicate (numeral k) x = x # replicate (pred_numeral k) x"
  by (simp add: numeral_eq_Suc)

lemmas gen_eval = generate_quote_number_def numbered_def new_quote_def clock_def zero_pad_def
  format_0wd_def digit_char_def py_int_def str_strip_def is_space_def int_unsigned_def
  is_digit_def digit_value_def Let_def replicate_numeral

text \<open>The first numbers of a month are as the tests expect.\<close>

lemma first_numbers:
  "generate_quote_number [] ''tenant-1'' (clock 9 5) = ''Q2025010001'' \<and>
   generate_quote_number [numbered ''Q2025010001''] ''tenant-1'' (clock 9 5) = ''Q2025010002''"
  by (simp add: gen_eval)

text \<open>
  C1. With \<open>Q2025019999\<close> stored, the generator returns \<open>Q20250110000\<close>. Once that quote is
  stored too, the string order still ranks \<open>Q2025019999\<close> highest, and the generator
  returns \<open>Q20250110000\<close> again: the same number twice for one tenant, without any
  concurrency.
\<close>

theorem quote_number_repeats:
  "generate_quote_number [numbered ''Q2025019999''] ''tenant-1'' (clock 9 5) = ''Q20250110000'' \<and>
   generate_quote_number [numbered ''Q2025019999'', numbered ''Q20250110000''] ''tenant-1'' (clock 9 5)
     = ''Q20250110000''"
  by (simp add: gen_eval)

end
